theory Spec2Isabelle
  imports Complex_Main "HOL-Library.Log_Nat"
begin

section \<open>Invoice server actions (app/lib/actions.ts)\<close>

text \<open>
  The file \<^verbatim>\<open>app/lib/actions.ts\<close> holds three server actions, \<^verbatim>\<open>createInvoice\<close>,
  \<^verbatim>\<open>updateInvoice\<close> and \<^verbatim>\<open>deleteInvoice\<close>. Each one validates form fields with a zod
  schema, runs one SQL statement, invalidates the cached listing route and redirects.
  The embedding below follows the file top to bottom. The language primitives and the
  library calls the actions rest on (\<^verbatim>\<open>Number\<close>, \<^verbatim>\<open>*\<close>, \<^verbatim>\<open>FormData.get\<close>,
  \<^verbatim>\<open>Date.toISOString\<close>, \<^verbatim>\<open>String.split\<close>, the zod schema constructors, \<^verbatim>\<open>sql\<close>,
  \<^verbatim>\<open>revalidatePath\<close>, \<^verbatim>\<open>redirect\<close>) are modelled first, each by the behaviour its own
  documentation gives it.
\<close>

subsection \<open>JavaScript numbers\<close>

text \<open>
  A JavaScript number is an IEEE 754 binary64 value: not-a-number, one of the two
  infinities, or a finite rational of the form \<open>m * 2 ^ e\<close>. The two zeros are
  identified: the actions only compare the amount with \<open>0\<close> and multiply it by \<open>100\<close>,
  and neither tells \<open>-0\<close> from \<open>+0\<close>.
\<close>

datatype number = NaN | PInf | NInf | Fin rat

definition pow2 :: "int \<Rightarrow> rat" where
  "pow2 e = (if 0 \<le> e then 2 ^ nat e else 1 / 2 ^ nat (- e))"

text \<open>For \<open>q > 0\<close>, \<open>ilog2 q\<close> is the integer \<open>k\<close> with \<open>2 ^ k \<le> q < 2 ^ (k + 1)\<close>.\<close>

definition ilog2 :: "rat \<Rightarrow> int" where
  "ilog2 q = (case quotient_of q of (a, b) \<Rightarrow>
     (let k = bitlen a - bitlen b
      in if pow2 k \<le> q then k else k - 1))"

definition round_half_even :: "rat \<Rightarrow> int" where
  "round_half_even x = (let f = \<lfloor>x\<rfloor>; r = x - of_int f
     in if r < 1 / 2 then f else if 1 / 2 < r then f + 1
        else if even f then f else f + 1)"

text \<open>
  \<open>to_double q\<close> is the number value for the mathematical value \<open>q\<close>: the nearest
  binary64 value, ties to the even significand. The significand has 53 bits, the least
  exponent of the unit in the last place is \<open>-1074\<close> (subnormal range), and a result of
  magnitude \<open>2 ^ 1024\<close> or more is an infinity.
\<close>

definition to_double :: "rat \<Rightarrow> number" where
  "to_double q = (if q = 0 then Fin 0 else
     (let a = \<bar>q\<bar>;
          e = max (ilog2 a - 52) (- 1074);
          m = round_half_even (a / pow2 e);
          r = of_int m * pow2 e
      in if 1024 \<le> ilog2 r then (if 0 < q then PInf else NInf)
         else Fin (sgn q * r)))"

fun sgn_number :: "number \<Rightarrow> int" where
  "sgn_number NaN = 0"
| "sgn_number PInf = 1"
| "sgn_number NInf = - 1"
| "sgn_number (Fin x) = (if x = 0 then 0 else if 0 < x then 1 else - 1)"

text \<open>The operator \<^verbatim>\<open>*\<close> on numbers.\<close>

definition js_times :: "number \<Rightarrow> number \<Rightarrow> number" where
  "js_times a b = (case (a, b) of
       (Fin x, Fin y) \<Rightarrow> to_double (x * y)
     | _ \<Rightarrow>
         (let s = sgn_number a * sgn_number b
          in if s = 0 then NaN else if 0 < s then PInf else NInf))"

text \<open>The operator \<^verbatim>\<open><=\<close> on numbers: every comparison with NaN is false.\<close>

definition js_le :: "number \<Rightarrow> number \<Rightarrow> bool" where
  "js_le a b = (case (a, b) of
       (Fin x, Fin y) \<Rightarrow> x \<le> y
     | (Fin x, PInf) \<Rightarrow> True
     | (NInf, Fin y) \<Rightarrow> True
     | (NInf, NInf) \<Rightarrow> True
     | (NInf, PInf) \<Rightarrow> True
     | (PInf, PInf) \<Rightarrow> True
     | _ \<Rightarrow> False)"

fun js_negate :: "number \<Rightarrow> number" where
  "js_negate NaN = NaN"
| "js_negate PInf = NInf"
| "js_negate NInf = PInf"
| "js_negate (Fin x) = Fin (- x)"

subsection \<open>Form data and the conversion \<^verbatim>\<open>Number(value)\<close>\<close>

text \<open>
  A \<^verbatim>\<open>FormData\<close> object is an ordered list of name/value entries; a value is a string
  or a file. \<^verbatim>\<open>formData.get(name)\<close> returns the first value stored under the name, and
  \<^verbatim>\<open>null\<close> (here \<open>None\<close>) when there is none. Strings are lists of 8-bit characters.
\<close>

datatype entry = Text string | File

type_synonym FormData = "(string \<times> entry) list"

definition get :: "FormData \<Rightarrow> string \<Rightarrow> entry option" where
  "get formData name = map_of formData name"

definition StrWhiteSpaceChar :: "char \<Rightarrow> bool" where
  "StrWhiteSpaceChar c =
     (c \<in> set [CHR 0x09, CHR 0x0A, CHR 0x0B, CHR 0x0C, CHR 0x0D, CHR 0x20, CHR 0xA0])"

definition trim :: "string \<Rightarrow> string" where
  "trim s = rev (dropWhile StrWhiteSpaceChar (rev (dropWhile StrWhiteSpaceChar s)))"

definition digit_of :: "char \<Rightarrow> nat option" where
  "digit_of c = (let n = (of_char c :: nat) in
     if 48 \<le> n \<and> n \<le> 57 then Some (n - 48)
     else if 97 \<le> n \<and> n \<le> 102 then Some (n - 87)
     else if 65 \<le> n \<and> n \<le> 70 then Some (n - 55)
     else None)"

definition is_digit :: "nat \<Rightarrow> char \<Rightarrow> bool" where
  "is_digit radix c = (case digit_of c of Some d \<Rightarrow> d < radix | None \<Rightarrow> False)"

definition digits_value :: "nat \<Rightarrow> string \<Rightarrow> int" where
  "digits_value radix s =
     foldl (\<lambda>acc c. acc * int radix + (case digit_of c of Some d \<Rightarrow> int d | None \<Rightarrow> 0)) 0 s"

text \<open>A non-empty run of digits of the radix, and nothing else.\<close>

definition Digits :: "nat \<Rightarrow> string \<Rightarrow> int option" where
  "Digits radix s =
     (if s \<noteq> [] \<and> list_all (is_digit radix) s then Some (digits_value radix s) else None)"

text \<open>
  The grammar StringNumericLiteral of the language standard, after trimming:
  \<^verbatim>\<open>Infinity\<close>, decimal literals with an optional fraction and exponent, each with an
  optional sign, and unsigned binary, octal and hexadecimal integer literals. \<open>None\<close>
  stands for a string outside the grammar.
\<close>

definition ExponentPart :: "string \<Rightarrow> int option" where
  "ExponentPart s = (case s of
       [] \<Rightarrow> Some 0
     | c # r \<Rightarrow>
         if c = CHR ''e'' \<or> c = CHR ''E'' then
           (case r of
              [] \<Rightarrow> None
            | d # r' \<Rightarrow>
                if d = CHR ''+'' then Digits 10 r'
                else if d = CHR ''-'' then map_option uminus (Digits 10 r')
                else Digits 10 r)
         else None)"

definition decimal_value :: "string \<Rightarrow> int \<Rightarrow> number" where
  "decimal_value ds e =
     to_double (of_int (digits_value 10 ds) *
       (if 0 \<le> e then 10 ^ nat e else 1 / 10 ^ nat (- e)))"

definition StrUnsignedDecimalLiteral :: "string \<Rightarrow> number option" where
  "StrUnsignedDecimalLiteral s =
     (if s = ''Infinity'' then Some PInf
      else
        (let ip = takeWhile (is_digit 10) s; r = dropWhile (is_digit 10) s in
         case r of
           [] \<Rightarrow> if ip = [] then None else Some (decimal_value ip 0)
         | c # r1 \<Rightarrow>
             if c = CHR ''.'' then
               (let fp = takeWhile (is_digit 10) r1; r2 = dropWhile (is_digit 10) r1 in
                if ip = [] \<and> fp = [] then None
                else map_option (\<lambda>e. decimal_value (ip @ fp) (e - int (length fp)))
                       (ExponentPart r2))
             else if ip = [] then None
             else map_option (decimal_value ip) (ExponentPart r)))"

definition StrDecimalLiteral :: "string \<Rightarrow> number option" where
  "StrDecimalLiteral s = (case s of
       [] \<Rightarrow> None
     | c # r \<Rightarrow>
         if c = CHR ''+'' then StrUnsignedDecimalLiteral r
         else if c = CHR ''-'' then map_option js_negate (StrUnsignedDecimalLiteral r)
         else StrUnsignedDecimalLiteral s)"

definition NonDecimalIntegerLiteral :: "string \<Rightarrow> number option" where
  "NonDecimalIntegerLiteral s = (case s of
       c # x # r \<Rightarrow>
         if c \<noteq> CHR ''0'' then None
         else if x = CHR ''b'' \<or> x = CHR ''B'' then
           map_option (\<lambda>v. to_double (of_int v)) (Digits 2 r)
         else if x = CHR ''o'' \<or> x = CHR ''O'' then
           map_option (\<lambda>v. to_double (of_int v)) (Digits 8 r)
         else if x = CHR ''x'' \<or> x = CHR ''X'' then
           map_option (\<lambda>v. to_double (of_int v)) (Digits 16 r)
         else None
     | _ \<Rightarrow> None)"

definition StringToNumber :: "string \<Rightarrow> number" where
  "StringToNumber s =
     (let t = trim s in
      if t = [] then Fin 0
      else case StrDecimalLiteral t of
             Some n \<Rightarrow> n
           | None \<Rightarrow> (case NonDecimalIntegerLiteral t of Some n \<Rightarrow> n | None \<Rightarrow> NaN))"

text \<open>
  \<^verbatim>\<open>Number(value)\<close> for the values \<^verbatim>\<open>formData.get\<close> can return: \<^verbatim>\<open>null\<close> gives \<open>0\<close>, a
  string is read by the grammar above, and a file object converts to the string
  \<^verbatim>\<open>[object File]\<close>, which is not a numeric literal.
\<close>

fun Number :: "entry option \<Rightarrow> number" where
  "Number None = Fin 0"
| "Number (Some (Text s)) = StringToNumber s"
| "Number (Some File) = NaN"

subsection \<open>The current date\<close>

text \<open>
  \<^verbatim>\<open>new Date()\<close> reads the system clock; the clock's reading is taken as its calendar
  fields in UTC. \<^verbatim>\<open>toISOString()\<close> prints them as \<^verbatim>\<open>YYYY-MM-DDTHH:mm:ss.sssZ\<close>, with a
  signed six-digit year outside the years 0 to 9999.
\<close>

record utc_time =
  year :: int
  month :: nat
  day :: nat
  hours :: nat
  minutes :: nat
  seconds :: nat
  milliseconds :: nat

fun decimal :: "nat \<Rightarrow> string" where
  "decimal n =
     (if n < 10 then [char_of (48 + n)] else decimal (n div 10) @ [char_of (48 + n mod 10)])"

declare decimal.simps [simp del]

definition pad :: "nat \<Rightarrow> nat \<Rightarrow> string" where
  "pad width n = replicate (width - length (decimal n)) (CHR ''0'') @ decimal n"

definition year_string :: "int \<Rightarrow> string" where
  "year_string y =
     (if 0 \<le> y \<and> y \<le> 9999 then pad 4 (nat y)
      else if y < 0 then ''-'' @ pad 6 (nat (- y))
      else ''+'' @ pad 6 (nat y))"

definition toISOString :: "utc_time \<Rightarrow> string" where
  "toISOString t =
     year_string (year t) @ ''-'' @ pad 2 (month t) @ ''-'' @ pad 2 (day t) @ ''T'' @
     pad 2 (hours t) @ '':'' @ pad 2 (minutes t) @ '':'' @ pad 2 (seconds t) @ ''.'' @
     pad 3 (milliseconds t) @ ''Z''"

text \<open>\<^verbatim>\<open>s.split(c)\<close> for a one-character separator; the result is never empty.\<close>

fun split_str :: "char \<Rightarrow> string \<Rightarrow> string list" where
  "split_str sep [] = [[]]"
| "split_str sep (c # cs) =
     (if c = sep then [] # split_str sep cs
      else (case split_str sep cs of [] \<Rightarrow> [[c]] | p # ps \<Rightarrow> (c # p) # ps))"

text \<open>Element \<open>0\<close> of an array of strings (present whenever the array is not empty).\<close>

definition index0 :: "string list \<Rightarrow> string" where
  "index0 parts = (case parts of [] \<Rightarrow> [] | p # ps \<Rightarrow> p)"

subsection \<open>The zod schema\<close>

text \<open>
  A schema is modelled by its parse function. A field schema gives the parsed value
  (\<open>Inr\<close>) or the message of the issue it raises (\<open>Inl\<close>):
  \<^item> \<^verbatim>\<open>z.string({ invalid_type_error })\<close> accepts exactly the strings; any other value
    that is not \<^verbatim>\<open>undefined\<close> raises an \<^verbatim>\<open>invalid_type\<close> issue with the given message
    (\<^verbatim>\<open>formData.get\<close> never returns \<^verbatim>\<open>undefined\<close>);
  \<^item> \<^verbatim>\<open>z.coerce.number().gt(bound, { message })\<close> first applies \<^verbatim>\<open>Number\<close>; NaN raises an
    \<^verbatim>\<open>invalid_type\<close> issue with the library's default message; otherwise the check
    fails with the given message when \<^verbatim>\<open>value <= bound\<close>;
  \<^item> \<^verbatim>\<open>z.enum(values, { invalid_type_error })\<close> raises an \<^verbatim>\<open>invalid_type\<close> issue with the
    given message for a value that is not a string, and an \<^verbatim>\<open>invalid_enum_value\<close> issue
    with the library's default message for a string that is not one of the values.
\<close>

definition z_string :: "string \<Rightarrow> entry option \<Rightarrow> string + string" where
  "z_string invalid_type_error input =
     (case input of Some (Text s) \<Rightarrow> Inr s | _ \<Rightarrow> Inl invalid_type_error)"

definition z_coerce_number_gt :: "number \<Rightarrow> string \<Rightarrow> entry option \<Rightarrow> string + number" where
  "z_coerce_number_gt bound message input =
     (let n = Number input in
      if n = NaN then Inl ''Expected number, received nan''
      else if js_le n bound then Inl message
      else Inr n)"

definition quoted :: "string \<Rightarrow> string" where
  "quoted s = [CHR 0x27] @ s @ [CHR 0x27]"

fun joinValues :: "string list \<Rightarrow> string" where
  "joinValues [] = []"
| "joinValues [v] = quoted v"
| "joinValues (v # vs) = quoted v @ '' | '' @ joinValues vs"

definition z_enum :: "string list \<Rightarrow> string \<Rightarrow> entry option \<Rightarrow> string + string" where
  "z_enum values invalid_type_error input =
     (case input of
        Some (Text s) \<Rightarrow>
          if s \<in> set values then Inr s
          else Inl (''Invalid enum value. Expected '' @ joinValues values @
                    '', received '' @ quoted s)
      | _ \<Rightarrow> Inl invalid_type_error)"

text \<open>A zod issue, by the first element of its path and its message.\<close>

datatype issue = Issue (issue_path: string) (issue_message: string)

definition issues_of :: "string \<Rightarrow> string + 'a \<Rightarrow> issue list" where
  "issues_of field r = (case r of Inl m \<Rightarrow> [Issue field m] | Inr v \<Rightarrow> [])"

text \<open>The object passed to the schema, and the object a successful parse returns.\<close>

record raw_fields =
  raw_customerId :: "entry option"
  raw_amount :: "entry option"
  raw_status :: "entry option"

record invoice_fields =
  customerId :: string
  amount :: number
  status :: string

text \<open>
  \<^verbatim>\<open>FormSchema.omit({ id: true, date: true })\<close>: the object schema with the three fields
  left. An object schema parses every field and collects the issues of all of them, in
  the order of the fields.
\<close>

definition FormSchema_omit_id_date :: "raw_fields \<Rightarrow> issue list + invoice_fields" where
  "FormSchema_omit_id_date input =
     (let c = z_string ''Please select a customer.'' (raw_customerId input);
          a = z_coerce_number_gt (Fin 0) ''Please enter an amount greater than $0.''
                (raw_amount input);
          s = z_enum [''pending'', ''paid''] ''Please select an invoice status.''
                (raw_status input)
      in case (c, a, s) of
           (Inr c', Inr a', Inr s') \<Rightarrow>
             Inr \<lparr>customerId = c', amount = a', status = s'\<rparr>
         | _ \<Rightarrow>
             Inl (issues_of ''customerId'' c @ issues_of ''amount'' a @ issues_of ''status'' s))"

definition CreateInvoice :: "raw_fields \<Rightarrow> issue list + invoice_fields" where
  "CreateInvoice = FormSchema_omit_id_date"

definition UpdateInvoice :: "raw_fields \<Rightarrow> issue list + invoice_fields" where
  "UpdateInvoice = FormSchema_omit_id_date"

text \<open>
  \<^verbatim>\<open>error.flatten().fieldErrors\<close>: for every field with an issue, the messages of its
  issues in order; a field without an issue has no key.
\<close>

definition fieldErrors :: "issue list \<Rightarrow> (string \<rightharpoonup> string list)" where
  "fieldErrors issues =
     foldl (\<lambda>m i. m(issue_path i \<mapsto>
                      (case m (issue_path i) of None \<Rightarrow> [] | Some l \<Rightarrow> l) @ [issue_message i]))
       Map.empty issues"

text \<open>
  \<^verbatim>\<open>schema.safeParse(input)\<close> never throws: it returns the parsed object (\<open>Inr\<close>, the
  result with \<^verbatim>\<open>success: true\<close>) or the error with its issues (\<open>Inl\<close>).
\<close>

definition safeParse :: "('i \<Rightarrow> issue list + 'o) \<Rightarrow> 'i \<Rightarrow> issue list + 'o" where
  "safeParse schema input = schema input"

subsection \<open>Effects: the store, the cache, control transfer\<close>

text \<open>
  The table \<^verbatim>\<open>invoices\<close> is a list of rows with the columns \<^verbatim>\<open>id\<close>, \<^verbatim>\<open>customer_id\<close>,
  \<^verbatim>\<open>amount\<close>, \<^verbatim>\<open>status\<close>, \<^verbatim>\<open>date\<close>. The table's declaration is not part of the file, so
  a row keeps the parameter values of the statement as they are passed.
\<close>

record invoice_row =
  row_id :: string
  row_customer_id :: string
  row_amount :: number
  row_status :: string
  row_date :: string

text \<open>
  The three statements of the file, by their parameters in the order they stand in the
  statement text.
\<close>

datatype statement =
    INSERT string number string string
  | UPDATE string number string string
  | DELETE string

text \<open>
  What lies outside the file: whether the store executes a statement or the call to
  \<^verbatim>\<open>sql\<close> rejects, the \<^verbatim>\<open>id\<close> the store gives a new row, whether \<^verbatim>\<open>revalidatePath\<close>
  returns or throws, and the reading of the system clock.
\<close>

record env =
  sql_accepts :: "statement \<Rightarrow> invoice_row list \<Rightarrow> bool"
  generated_id :: "invoice_row list \<Rightarrow> string"
  revalidate_returns :: bool
  clock :: utc_time

text \<open>The calls made to the store, the cache and the router, in the order they happen.\<close>

datatype event =
    SqlDone statement
  | SqlFailed statement
  | Revalidated string
  | RevalidateFailed string
  | Redirected string

record world =
  invoices :: "invoice_row list"
  trace :: "event list"

text \<open>
  What can be thrown: the \<^verbatim>\<open>ZodError\<close> of \<^verbatim>\<open>parse\<close>, a rejection of the store call, a
  failure of the cache call, and the \<^verbatim>\<open>NEXT_REDIRECT\<close> error that \<^verbatim>\<open>redirect\<close> throws to
  transfer control.
\<close>

datatype exn =
    ZodError "issue list"
  | StoreFailure
  | CacheFailure
  | NEXT_REDIRECT string

text \<open>\<^verbatim>\<open>schema.parse(input)\<close> returns the parsed object or throws a \<^verbatim>\<open>ZodError\<close>.\<close>

definition parse :: "('i \<Rightarrow> issue list + 'o) \<Rightarrow> 'i \<Rightarrow> exn + 'o" where
  "parse schema input =
     (case schema input of Inl issues \<Rightarrow> Inl (ZodError issues) | Inr data \<Rightarrow> Inr data)"

text \<open>
  A statement of a function body, run on a world, completes normally, returns a value
  from the function, or throws. A function body that completes normally returns
  \<^verbatim>\<open>undefined\<close>.
\<close>

datatype 'r completion = Normal | Return 'r | Throw exn

type_synonym 'r stmt = "world \<Rightarrow> 'r completion \<times> world"

definition ret :: "'r \<Rightarrow> 'r stmt" where
  "ret v = (\<lambda>w. (Return v, w))"

definition throw :: "exn \<Rightarrow> 'r stmt" where
  "throw e = (\<lambda>w. (Throw e, w))"

definition seq :: "'r stmt \<Rightarrow> 'r stmt \<Rightarrow> 'r stmt" where
  "seq s1 s2 = (\<lambda>w. case s1 w of (Normal, w') \<Rightarrow> s2 w' | (c, w') \<Rightarrow> (c, w'))"

text \<open>\<^verbatim>\<open>try { body } catch (error) { handler }\<close>: the handler runs on anything thrown.\<close>

definition try_catch :: "'r stmt \<Rightarrow> (exn \<Rightarrow> 'r stmt) \<Rightarrow> 'r stmt" where
  "try_catch body handler =
     (\<lambda>w. case body w of (Throw e, w') \<Rightarrow> handler e w' | (c, w') \<Rightarrow> (c, w'))"

text \<open>
  Each statement is a single one: it takes effect as a whole or, when the call rejects,
  not at all.
\<close>

fun run_statement :: "env \<Rightarrow> statement \<Rightarrow> invoice_row list \<Rightarrow> invoice_row list" where
  "run_statement env (INSERT p_customer p_amount p_status p_date) rows =
     rows @ [\<lparr>row_id = generated_id env rows, row_customer_id = p_customer,
              row_amount = p_amount, row_status = p_status, row_date = p_date\<rparr>]"
| "run_statement env (UPDATE p_customer p_amount p_status p_id) rows =
     map (\<lambda>r. if row_id r = p_id
               then r\<lparr>row_customer_id := p_customer, row_amount := p_amount,
                      row_status := p_status\<rparr>
               else r) rows"
| "run_statement env (DELETE p_id) rows = filter (\<lambda>r. row_id r \<noteq> p_id) rows"

definition sql :: "env \<Rightarrow> statement \<Rightarrow> 'r stmt" where
  "sql env st =
     (\<lambda>w. if sql_accepts env st (invoices w)
           then (Normal, w\<lparr>invoices := run_statement env st (invoices w),
                            trace := trace w @ [SqlDone st]\<rparr>)
           else (Throw StoreFailure, w\<lparr>trace := trace w @ [SqlFailed st]\<rparr>))"

definition revalidatePath :: "env \<Rightarrow> string \<Rightarrow> 'r stmt" where
  "revalidatePath env path =
     (\<lambda>w. if revalidate_returns env
           then (Normal, w\<lparr>trace := trace w @ [Revalidated path]\<rparr>)
           else (Throw CacheFailure, w\<lparr>trace := trace w @ [RevalidateFailed path]\<rparr>))"

definition redirect :: "string \<Rightarrow> 'r stmt" where
  "redirect path = (\<lambda>w. (Throw (NEXT_REDIRECT path), w\<lparr>trace := trace w @ [Redirected path]\<rparr>))"

subsection \<open>The three actions\<close>

text \<open>The type \<^verbatim>\<open>State\<close>: both members are optional.\<close>

record State =
  errors :: "(string \<rightharpoonup> string list) option"
  message :: "string option"

definition createInvoice :: "env \<Rightarrow> State \<Rightarrow> FormData \<Rightarrow> State stmt" where
  "createInvoice env prevState formData =
     (case safeParse CreateInvoice
             \<lparr>raw_customerId = get formData ''customerId'',
              raw_amount = get formData ''amount'',
              raw_status = get formData ''status''\<rparr> of
        Inl error \<Rightarrow>
          ret \<lparr>errors = Some (fieldErrors error),
               message = Some ''Missing Fields. Failed to Create Invoice.''\<rparr>
      | Inr data \<Rightarrow>
          (let amountInCents = js_times (amount data) (Fin 100);
               date = index0 (split_str (CHR ''T'') (toISOString (clock env)))
           in seq (try_catch
                     (sql env (INSERT (customerId data) amountInCents (status data) date))
                     (\<lambda>error. ret \<lparr>errors = None,
                                    message = Some ''Database Error: Failed to Create Invoice. ''\<rparr>))
             (seq (revalidatePath env ''/dashboard/invoices'')
                  (redirect ''/dashboard/invoices''))))"

definition updateInvoice :: "env \<Rightarrow> string \<Rightarrow> FormData \<Rightarrow> State stmt" where
  "updateInvoice env id' formData =
     (case parse UpdateInvoice
             \<lparr>raw_customerId = get formData ''customerId'',
              raw_amount = get formData ''amount'',
              raw_status = get formData ''status''\<rparr> of
        Inl error \<Rightarrow> throw error
      | Inr data \<Rightarrow>
          (let amountInCents = js_times (amount data) (Fin 100)
           in seq (try_catch
                     (sql env (UPDATE (customerId data) amountInCents (status data) id'))
                     (\<lambda>error. ret \<lparr>errors = None,
                                    message = Some ''Database Error: Failed to Update Invoice.''\<rparr>))
             (seq (revalidatePath env ''/dashboard/invoices'')
                  (redirect ''/dashboard/invoices''))))"

definition deleteInvoice :: "env \<Rightarrow> string \<Rightarrow> State stmt" where
  "deleteInvoice env id' =
     try_catch
       (seq (sql env (DELETE id'))
         (seq (revalidatePath env ''/dashboard/invoices'')
              (ret \<lparr>errors = None, message = Some ''Deleted Invoice.''\<rparr>)))
       (\<lambda>error. ret \<lparr>errors = None,
                      message = Some ''Database Error: Failed to Delete Invoice.''\<rparr>)"

subsection \<open>Notions the properties are stated with\<close>

text \<open>The operator \<^verbatim>\<open><\<close> on numbers (\<^verbatim>\<open>a > b\<close> is \<^verbatim>\<open>b < a\<close>).\<close>

definition js_less :: "number \<Rightarrow> number \<Rightarrow> bool" where
  "js_less a b = (case (a, b) of
       (Fin x, Fin y) \<Rightarrow> x < y
     | (Fin x, PInf) \<Rightarrow> True
     | (NInf, Fin y) \<Rightarrow> True
     | (NInf, PInf) \<Rightarrow> True
     | _ \<Rightarrow> False)"


text \<open>\<^verbatim>\<open>Number.isInteger\<close>.\<close>

fun isInteger :: "number \<Rightarrow> bool" where
  "isInteger (Fin x) = (of_int \<lfloor>x\<rfloor> = x)"
| "isInteger n = False"

text \<open>
  The constraints of the three fields in the words of the data model: the customer is
  a string, the coerced amount is greater than zero, the status is one of the two
  enumerated values.
\<close>

definition customerId_ok :: "FormData \<Rightarrow> bool" where
  "customerId_ok formData =
     (case get formData ''customerId'' of Some (Text s) \<Rightarrow> True | _ \<Rightarrow> False)"

definition amount_ok :: "FormData \<Rightarrow> bool" where
  "amount_ok formData = js_less (Fin 0) (Number (get formData ''amount''))"

definition status_ok :: "FormData \<Rightarrow> bool" where
  "status_ok formData =
     (get formData ''status'' = Some (Text ''pending'') \<or>
      get formData ''status'' = Some (Text ''paid''))"

definition valid_form :: "FormData \<Rightarrow> bool" where
  "valid_form formData = (customerId_ok formData \<and> amount_ok formData \<and> status_ok formData)"

text \<open>The string value of a field that holds a string.\<close>

definition text_of :: "FormData \<Rightarrow> string \<Rightarrow> string" where
  "text_of formData name = (case get formData name of Some (Text s) \<Rightarrow> s | _ \<Rightarrow> [])"

text \<open>
  The calendar date of a clock reading as ISO 8601 writes it: \<^verbatim>\<open>YYYY-MM-DD\<close> for the
  years 0 to 9999 (a signed six-digit year stands before the month otherwise).
\<close>

definition calendar_date :: "utc_time \<Rightarrow> string" where
  "calendar_date t = year_string (year t) @ ''-'' @ pad 2 (month t) @ ''-'' @ pad 2 (day t)"

text \<open>
  The form \<^verbatim>\<open>YYYY-MM-DD\<close> of a date: the year in four digits, the month and the day in
  two digits each.
\<close>

definition YYYY_MM_DD :: "utc_time \<Rightarrow> string" where
  "YYYY_MM_DD t = pad 4 (nat (year t)) @ ''-'' @ pad 2 (month t) @ ''-'' @ pad 2 (day t)"

text \<open>
  The messages a returned object lists for a field (none when the object has no
  \<^verbatim>\<open>errors\<close> member or the member has no such key).
\<close>

definition errors_for :: "State \<Rightarrow> string \<Rightarrow> string list" where
  "errors_for r field =
     (case errors r of
        None \<Rightarrow> []
      | Some e \<Rightarrow> (case e field of None \<Rightarrow> [] | Some ms \<Rightarrow> ms))"

text \<open>The events a call adds to the trace.\<close>

definition new_events :: "world \<Rightarrow> world \<Rightarrow> event list" where
  "new_events w w' = drop (length (trace w)) (trace w')"

text \<open>A finite value of \<open>to_double\<close> is zero or at least the least positive double in
  magnitude.\<close>

definition representable :: "number \<Rightarrow> bool" where
  "representable n = (case n of Fin x \<Rightarrow> x = 0 \<or> pow2 (- 1074) \<le> \<bar>x\<bar> | _ \<Rightarrow> True)"

subsection \<open>Concrete inputs\<close>

definition example_clock :: utc_time where
  "example_clock = \<lparr>year = 2026, month = 11, day = 3, hours = 5, minutes = 7,
                    seconds = 9, milliseconds = 42\<rparr>"

definition example_env :: env where
  "example_env = \<lparr>sql_accepts = (\<lambda>st rows. True), generated_id = (\<lambda>rows. ''inv3''),
                  revalidate_returns = True, clock = example_clock\<rparr>"

definition example_world :: world where
  "example_world =
     \<lparr>invoices =
        [\<lparr>row_id = ''inv1'', row_customer_id = ''c1'', row_amount = Fin 1000,
          row_status = ''pending'', row_date = ''2026-01-15''\<rparr>,
         \<lparr>row_id = ''inv2'', row_customer_id = ''c2'', row_amount = Fin 250,
          row_status = ''paid'', row_date = ''2026-02-20''\<rparr>],
      trace = []\<rparr>"

definition example_prev :: State where
  "example_prev = \<lparr>errors = None, message = None\<rparr>"

definition example_form :: "string \<Rightarrow> string \<Rightarrow> string \<Rightarrow> FormData" where
  "example_form c a s = [(''customerId'', Text c), (''amount'', Text a), (''status'', Text s)]"

section \<open>Properties of the model\<close>

subsection \<open>Rounding to binary64\<close>

lemma pow2_powi: "pow2 e = 2 powi e"
  by (simp add: pow2_def power_int_def inverse_eq_divide power_one_over)

lemma pow2_pos: "0 < pow2 e"
  by (simp add: pow2_powi)

lemma pow2_add: "pow2 (a + b) = pow2 a * pow2 b"
  by (simp add: pow2_powi power_int_add)

lemma pow2_mono: "a \<le> b \<Longrightarrow> pow2 a \<le> pow2 b"
  unfolding pow2_powi by (rule power_int_increasing) simp_all

lemma pow2_nat: "0 \<le> e \<Longrightarrow> pow2 e = 2 ^ nat e"
  by (simp add: pow2_def)

lemma ilog2_lower:
  assumes "0 < q"
  shows "pow2 (ilog2 q) \<le> q"
proof -
  obtain a b where ab: "quotient_of q = (a, b)" by force
  have b: "0 < b" using ab by (rule quotient_of_denom_pos)
  have q: "q = of_int a / of_int b" using ab by (rule quotient_of_div)
  have a: "0 < a" using assms b unfolding q by (simp add: zero_less_divide_iff)
  define k where "k = bitlen a - bitlen b"
  have la: "1 \<le> bitlen a" using a bitlen_eq_zero_iff[of a] bitlen_nonneg[of a] by linarith
  have lb: "1 \<le> bitlen b" using b bitlen_eq_zero_iff[of b] bitlen_nonneg[of b] by linarith
  have "(2::int) ^ nat (bitlen a - 1) \<le> a" using bitlen_bounds[OF a] by simp
  then have "(of_int ((2::int) ^ nat (bitlen a - 1)) :: rat) \<le> of_int a"
    by (simp only: of_int_le_iff)
  then have A: "pow2 (bitlen a - 1) \<le> of_int a" using la by (simp add: pow2_nat)
  have "b < (2::int) ^ nat (bitlen b)" using bitlen_bounds[OF b] by simp
  then have "(of_int b :: rat) < of_int ((2::int) ^ nat (bitlen b))"
    by (simp only: of_int_less_iff)
  then have B: "of_int b < pow2 (bitlen b)" using lb by (simp add: pow2_nat)
  have C: "pow2 (k - 1) * pow2 (bitlen b) = pow2 (bitlen a - 1)"
    unfolding k_def pow2_add[symmetric] by simp
  have "pow2 (k - 1) * of_int b \<le> pow2 (k - 1) * pow2 (bitlen b)"
    using B pow2_pos[of "k - 1"] by (intro mult_left_mono) simp_all
  also have "\<dots> \<le> of_int a" unfolding C by (rule A)
  finally have "pow2 (k - 1) * of_int b \<le> of_int a" .
  then have low: "pow2 (k - 1) \<le> q" unfolding q using b by (simp add: pos_le_divide_eq)
  show ?thesis
    using low by (simp add: ilog2_def ab Let_def k_def)
qed

lemma ilog2_upper:
  assumes "0 < q"
  shows "q < pow2 (ilog2 q + 1)"
proof -
  obtain a b where ab: "quotient_of q = (a, b)" by force
  have b: "0 < b" using ab by (rule quotient_of_denom_pos)
  have q: "q = of_int a / of_int b" using ab by (rule quotient_of_div)
  have a: "0 < a" using assms b unfolding q by (simp add: zero_less_divide_iff)
  define k where "k = bitlen a - bitlen b"
  have la: "1 \<le> bitlen a" using a bitlen_eq_zero_iff[of a] bitlen_nonneg[of a] by linarith
  have lb: "1 \<le> bitlen b" using b bitlen_eq_zero_iff[of b] bitlen_nonneg[of b] by linarith
  have "a < (2::int) ^ nat (bitlen a)" using bitlen_bounds[OF a] by simp
  then have "(of_int a :: rat) < of_int ((2::int) ^ nat (bitlen a))"
    by (simp only: of_int_less_iff)
  then have A: "of_int a < pow2 (bitlen a)" using la by (simp add: pow2_nat)
  have "(2::int) ^ nat (bitlen b - 1) \<le> b" using bitlen_bounds[OF b] by simp
  then have "(of_int ((2::int) ^ nat (bitlen b - 1)) :: rat) \<le> of_int b"
    by (simp only: of_int_le_iff)
  then have B: "pow2 (bitlen b - 1) \<le> of_int b" using lb by (simp add: pow2_nat)
  have C: "pow2 (k + 1) * pow2 (bitlen b - 1) = pow2 (bitlen a)"
    unfolding k_def pow2_add[symmetric] by simp
  have "of_int a < pow2 (bitlen a)" by (rule A)
  also have "\<dots> = pow2 (k + 1) * pow2 (bitlen b - 1)" by (simp only: C)
  also have "\<dots> \<le> pow2 (k + 1) * of_int b"
    using B pow2_pos[of "k + 1"] by (intro mult_left_mono) simp_all
  finally have "of_int a < pow2 (k + 1) * of_int b" .
  then have up: "q < pow2 (k + 1)" unfolding q using b by (simp add: pos_divide_less_eq)
  show ?thesis
    using up by (auto simp: ilog2_def ab Let_def k_def)
qed

lemma round_half_even_ge: "of_int n \<le> x \<Longrightarrow> n \<le> round_half_even x"
  unfolding round_half_even_def Let_def by (auto simp: le_floor_iff) linarith+


lemma to_double_positive:
  assumes "pow2 (- 1074) \<le> q"
  shows "js_less (Fin 0) (to_double q)"
proof -
  have q: "0 < q" using assms pow2_pos[of "- 1074"] by linarith
  define e where "e = max (ilog2 \<bar>q\<bar> - 52) (- 1074)"
  define m where "m = round_half_even (\<bar>q\<bar> / pow2 e)"
  have "pow2 e \<le> q"
  proof (cases "ilog2 \<bar>q\<bar> - 52 \<le> - 1074")
    case True
    then have "e = - 1074" by (simp add: e_def)
    then show ?thesis using assms by simp
  next
    case False
    then have "e = ilog2 q - 52" using q by (simp add: e_def)
    then have "pow2 e \<le> pow2 (ilog2 q)" by (simp add: pow2_mono)
    then show ?thesis using ilog2_lower[OF q] by linarith
  qed
  then have "of_int 1 \<le> \<bar>q\<bar> / pow2 e" using q pow2_pos[of e] by (simp add: pos_le_divide_eq)
  then have "1 \<le> m" unfolding m_def by (rule round_half_even_ge)
  then have "0 < (of_int m :: rat) * pow2 e" using pow2_pos[of e] by simp
  then show ?thesis
    using q unfolding to_double_def Let_def e_def[symmetric] m_def[symmetric]
    by (simp add: js_less_def)
qed

lemma round_half_even_nonneg: "0 \<le> x \<Longrightarrow> 0 \<le> round_half_even x"
  using round_half_even_ge[of 0 x] by simp

lemma to_double_representable: "representable (to_double q)"
proof (cases "q = 0")
  case True
  then show ?thesis by (simp add: to_double_def representable_def)
next
  case False
  define e where "e = max (ilog2 \<bar>q\<bar> - 52) (- 1074)"
  define m where "m = round_half_even (\<bar>q\<bar> / pow2 e)"
  have e: "- 1074 \<le> e" by (simp add: e_def)
  have m: "0 \<le> m" unfolding m_def using pow2_pos[of e] by (intro round_half_even_nonneg) simp
  have "m = 0 \<or> pow2 (- 1074) \<le> of_int m * pow2 e"
  proof (cases "m = 0")
    case True then show ?thesis by simp
  next
    case False
    then have "(1::rat) \<le> of_int m" using m by linarith
    then have "1 * pow2 e \<le> of_int m * pow2 e"
      using pow2_pos[of e] by (intro mult_right_mono) simp_all
    then show ?thesis using pow2_mono[OF e] by linarith
  qed
  then have "representable (Fin (sgn q * (of_int m * pow2 e)))"
    using False m pow2_pos[of e]
    by (auto simp: representable_def abs_mult sgn_if)
  then show ?thesis
    using False unfolding to_double_def Let_def e_def[symmetric] m_def[symmetric]
    by (simp add: representable_def)
qed

lemma js_negate_representable: "representable n \<Longrightarrow> representable (js_negate n)"
  by (cases n) (auto simp: representable_def)

lemma decimal_value_representable: "representable (decimal_value ds e)"
  unfolding decimal_value_def by (rule to_double_representable)

lemma representable_PInf: "representable PInf"
  by (simp add: representable_def)

lemma map_option_representable:
  "map_option f x = Some n \<Longrightarrow> (\<And>e. representable (f e)) \<Longrightarrow> representable n"
  by (cases x) auto

lemma StrUnsignedDecimalLiteral_representable:
  assumes "StrUnsignedDecimalLiteral s = Some n"
  shows "representable n"
proof (cases "s = ''Infinity''")
  case True
  then show ?thesis using assms by (simp add: StrUnsignedDecimalLiteral_def representable_PInf)
next
  case False
  define ip where "ip = takeWhile (is_digit 10) s"
  define r where "r = dropWhile (is_digit 10) s"
  have eq: "(case r of
           [] \<Rightarrow> if ip = [] then None else Some (decimal_value ip 0)
         | c # r1 \<Rightarrow>
             if c = CHR ''.'' then
               (let fp = takeWhile (is_digit 10) r1; r2 = dropWhile (is_digit 10) r1 in
                if ip = [] \<and> fp = [] then None
                else map_option (\<lambda>e. decimal_value (ip @ fp) (e - int (length fp)))
                       (ExponentPart r2))
             else if ip = [] then None
             else map_option (decimal_value ip) (ExponentPart r)) = Some n"
    using assms False unfolding StrUnsignedDecimalLiteral_def ip_def r_def Let_def
    by (simp only: if_False)
  show ?thesis
  proof (cases r)
    case Nil
    then show ?thesis using eq by (auto simp: decimal_value_representable split: if_splits)
  next
    case (Cons c r1)
    show ?thesis
    proof (cases "c = CHR ''.''")
      case True
      then show ?thesis using eq Cons
        by (auto simp: Let_def decimal_value_representable split: if_splits
            elim!: map_option_representable)
    next
      case False
      then show ?thesis using eq Cons
        by (auto simp: decimal_value_representable split: if_splits
            elim!: map_option_representable)
    qed
  qed
qed

lemma StrDecimalLiteral_representable:
  "StrDecimalLiteral s = Some n \<Longrightarrow> representable n"
  unfolding StrDecimalLiteral_def
  by (auto simp: StrUnsignedDecimalLiteral_representable js_negate_representable
      split: if_splits list.splits)

lemma NonDecimalIntegerLiteral_representable:
  assumes "NonDecimalIntegerLiteral s = Some n"
  shows "representable n"
proof -
  obtain c x r where s: "s = c # x # r"
    using assms unfolding NonDecimalIntegerLiteral_def
    by (cases s; cases "tl s") auto
  have "\<exists>radix. map_option (\<lambda>v. to_double (of_int v)) (Digits radix r) = Some n"
    using assms unfolding NonDecimalIntegerLiteral_def s list.case
    by (metis option.distinct(1))
  then show ?thesis
    by (auto simp: to_double_representable elim!: map_option_representable)
qed

lemma StringToNumber_representable: "representable (StringToNumber s)"
proof (cases "trim s = []")
  case True
  then show ?thesis by (simp add: StringToNumber_def representable_def)
next
  case False
  show ?thesis
  proof (cases "StrDecimalLiteral (trim s)")
    case (Some n)
    then show ?thesis
      using False StrDecimalLiteral_representable[OF Some] by (simp add: StringToNumber_def)
  next
    case None
    show ?thesis
    proof (cases "NonDecimalIntegerLiteral (trim s)")
      case (Some n)
      then show ?thesis
        using False None NonDecimalIntegerLiteral_representable[OF Some]
        by (simp add: StringToNumber_def)
    next
      case None': None
      have "StringToNumber s = NaN" using False None None' by (simp add: StringToNumber_def)
      then show ?thesis by (simp add: representable_def)
    qed
  qed
qed

lemma Number_representable: "representable (Number v)"
proof (cases v)
  case None
  then show ?thesis by (simp add: representable_def)
next
  case (Some x)
  then show ?thesis
    by (cases x) (simp_all add: StringToNumber_representable, simp add: representable_def)
qed

lemma amountInCents_positive:
  assumes "js_less (Fin 0) (Number v)"
  shows "js_less (Fin 0) (js_times (Number v) (Fin 100))"
proof (cases "Number v")
  case (Fin x)
  then have x: "0 < x" using assms by (simp add: js_less_def)
  have "representable (Fin x)" using Number_representable[of v] Fin by simp
  then have "pow2 (- 1074) \<le> x" using x by (simp add: representable_def)
  then have "pow2 (- 1074) \<le> x * 100" using x by linarith
  then show ?thesis using Fin by (simp add: js_times_def to_double_positive)
qed (use assms in \<open>auto simp: js_less_def js_times_def\<close>)

subsection \<open>The date part of the ISO string\<close>

lemma decimal_digit_char: "(n::nat) < 10 \<Longrightarrow> char_of (48 + n) \<noteq> CHR ''T''"
proof
  assume n: "n < 10" and eq: "char_of (48 + n) = CHR ''T''"
  from eq have "(of_char (char_of (48 + n) :: char) :: nat) = of_char (CHR ''T'')" by simp
  then show False using n by simp
qed

lemma decimal_no_T: "CHR ''T'' \<notin> set (decimal n)"
proof (induction n rule: decimal.induct)
  case (1 n)
  show ?case
  proof (cases "n < 10")
    case True
    then show ?thesis using decimal_digit_char[OF True] by (subst decimal.simps) auto
  next
    case False
    have "n mod 10 < 10" by simp
    then have "char_of (48 + n mod 10) \<noteq> CHR ''T''" by (rule decimal_digit_char)
    then show ?thesis using False 1 by (subst decimal.simps) auto
  qed
qed

lemma pad_no_T: "CHR ''T'' \<notin> set (pad k n)"
  by (auto simp: pad_def decimal_no_T)

lemma split_str_first:
  "sep \<notin> set xs \<Longrightarrow> split_str sep (xs @ sep # ys) = xs # split_str sep ys"
  by (induction xs) auto

lemma year_string_no_T: "CHR ''T'' \<notin> set (year_string y)"
  by (simp add: year_string_def pad_no_T)

lemma toISOString_date:
  "index0 (split_str (CHR ''T'') (toISOString t)) = calendar_date t"
proof -
  have "CHR ''T'' \<notin> set (calendar_date t)"
    by (simp add: calendar_date_def pad_no_T year_string_no_T)
  moreover have "toISOString t = calendar_date t @ CHR ''T'' #
      (pad 2 (hours t) @ '':'' @ pad 2 (minutes t) @ '':'' @ pad 2 (seconds t) @ ''.'' @
       pad 3 (milliseconds t) @ ''Z'')"
    by (simp add: toISOString_def calendar_date_def)
  ultimately show ?thesis by (simp add: split_str_first index0_def)
qed


lemma length_decimal_1: "n < 10 \<Longrightarrow> length (decimal n) = 1"
  by (subst decimal.simps) simp

lemma length_decimal_2: "n < 100 \<Longrightarrow> length (decimal n) \<le> 2"
  by (subst decimal.simps) (simp add: length_decimal_1)

lemma length_decimal_4: "n < 10000 \<Longrightarrow> length (decimal n) \<le> 4"
proof -
  assume n: "n < 10000"
  have three: "length (decimal m) \<le> 3" if "m < 1000" for m
    using that by (subst decimal.simps) (simp add: length_decimal_2 le_Suc_eq)
  show ?thesis
  proof (cases "n < 10")
    case True
    then show ?thesis by (simp add: length_decimal_1)
  next
    case False
    have "n div 10 < 1000" using n by simp
    then have "length (decimal (n div 10)) \<le> 3" by (rule three)
    then show ?thesis using False by (subst decimal.simps) simp
  qed
qed

lemma length_pad: "length (decimal n) \<le> width \<Longrightarrow> length (pad width n) = width"
  by (simp add: pad_def)

text \<open>For a calendar date the form has ten characters.\<close>

lemma length_YYYY_MM_DD:
  assumes "0 \<le> year t" and "year t \<le> 9999" and "month t \<le> 12" and "day t \<le> 31"
  shows "length (YYYY_MM_DD t) = 10"
proof -
  have "nat (year t) < 10000" using assms(1,2) by simp
  then have y: "length (pad 4 (nat (year t))) = 4"
    by (intro length_pad length_decimal_4)
  have m: "length (pad 2 (month t)) = 2"
    using assms(3) by (intro length_pad length_decimal_2) simp
  have d: "length (pad 2 (day t)) = 2"
    using assms(4) by (intro length_pad length_decimal_2) simp
  show ?thesis by (simp add: YYYY_MM_DD_def y m d)
qed

subsection \<open>The schema on form data\<close>

lemma fieldErrors_three:
  "fieldErrors (issues_of ''customerId'' c @ issues_of ''amount'' a @ issues_of ''status'' s) =
     (\<lambda>f. if f = ''customerId'' then (case c of Inl m \<Rightarrow> Some [m] | Inr v \<Rightarrow> None)
          else if f = ''amount'' then (case a of Inl m \<Rightarrow> Some [m] | Inr v \<Rightarrow> None)
          else if f = ''status'' then (case s of Inl m \<Rightarrow> Some [m] | Inr v \<Rightarrow> None)
          else None)"
  by (cases c; cases a; cases s) (auto simp: fieldErrors_def issues_of_def fun_eq_iff)

lemma js_less_zero_iff: "js_less (Fin 0) n \<longleftrightarrow> n \<noteq> NaN \<and> \<not> js_le n (Fin 0)"
  by (cases n) (auto simp: js_less_def js_le_def)

lemma z_string_field:
  "z_string m (get fd ''customerId'') =
     (if customerId_ok fd then Inr (text_of fd ''customerId'') else Inl m)"
  by (auto simp: z_string_def customerId_ok_def text_of_def split: option.splits entry.splits)

lemma z_number_field:
  "z_coerce_number_gt (Fin 0) m (get fd ''amount'') =
     (if amount_ok fd then Inr (Number (get fd ''amount''))
      else if Number (get fd ''amount'') = NaN then Inl ''Expected number, received nan''
      else Inl m)"
  by (simp add: z_coerce_number_gt_def amount_ok_def js_less_zero_iff Let_def)

lemma z_enum_field:
  "z_enum [''pending'', ''paid''] m (get fd ''status'') =
     (if status_ok fd then Inr (text_of fd ''status'')
      else Inl (case get fd ''status'' of
                  Some (Text s) \<Rightarrow>
                    ''Invalid enum value. Expected '' @ joinValues [''pending'', ''paid''] @
                    '', received '' @ quoted s
                | _ \<Rightarrow> m))"
  by (auto simp: z_enum_def status_ok_def text_of_def split: option.splits entry.splits)

lemma schema_form:
  "FormSchema_omit_id_date
     \<lparr>raw_customerId = get fd ''customerId'', raw_amount = get fd ''amount'',
      raw_status = get fd ''status''\<rparr> =
   (if valid_form fd
    then Inr \<lparr>customerId = text_of fd ''customerId'', amount = Number (get fd ''amount''),
              status = text_of fd ''status''\<rparr>
    else Inl (issues_of ''customerId''
                (z_string ''Please select a customer.'' (get fd ''customerId'')) @
              issues_of ''amount''
                (z_coerce_number_gt (Fin 0) ''Please enter an amount greater than $0.''
                   (get fd ''amount'')) @
              issues_of ''status''
                (z_enum [''pending'', ''paid''] ''Please select an invoice status.''
                   (get fd ''status''))))"
  unfolding FormSchema_omit_id_date_def Let_def valid_form_def
  by (simp add: z_string_field z_number_field z_enum_field)


lemma createInvoice_on_invalid:
  assumes "\<not> valid_form fd"
  shows "createInvoice env prev fd w =
     (Return \<lparr>errors = Some (fieldErrors
                (issues_of ''customerId''
                   (z_string ''Please select a customer.'' (get fd ''customerId'')) @
                 issues_of ''amount''
                   (z_coerce_number_gt (Fin 0) ''Please enter an amount greater than $0.''
                      (get fd ''amount'')) @
                 issues_of ''status''
                   (z_enum [''pending'', ''paid''] ''Please select an invoice status.''
                      (get fd ''status'')))),
              message = Some ''Missing Fields. Failed to Create Invoice.''\<rparr>, w)"
  using assms
  by (simp add: createInvoice_def safeParse_def CreateInvoice_def schema_form ret_def)

lemma createInvoice_on_valid:
  assumes "valid_form fd"
  shows "createInvoice env prev fd w =
     (let st = INSERT (text_of fd ''customerId'')
                 (js_times (Number (get fd ''amount'')) (Fin 100))
                 (text_of fd ''status'')
                 (index0 (split_str (CHR ''T'') (toISOString (clock env))))
      in if sql_accepts env st (invoices w)
         then if revalidate_returns env
              then (Throw (NEXT_REDIRECT ''/dashboard/invoices''),
                    \<lparr>invoices = run_statement env st (invoices w),
                     trace = trace w @ [SqlDone st, Revalidated ''/dashboard/invoices'',
                                        Redirected ''/dashboard/invoices'']\<rparr>)
              else (Throw CacheFailure,
                    \<lparr>invoices = run_statement env st (invoices w),
                     trace = trace w @ [SqlDone st, RevalidateFailed ''/dashboard/invoices'']\<rparr>)
         else (Return \<lparr>errors = None,
                       message = Some ''Database Error: Failed to Create Invoice. ''\<rparr>,
               \<lparr>invoices = invoices w, trace = trace w @ [SqlFailed st]\<rparr>))"
  using assms
  by (simp add: createInvoice_def safeParse_def CreateInvoice_def schema_form Let_def seq_def
      try_catch_def
      sql_def revalidatePath_def redirect_def ret_def)

lemma updateInvoice_on_invalid:
  assumes "\<not> valid_form fd"
  shows "updateInvoice env i fd w =
     (Throw (ZodError
        (issues_of ''customerId''
           (z_string ''Please select a customer.'' (get fd ''customerId'')) @
         issues_of ''amount''
           (z_coerce_number_gt (Fin 0) ''Please enter an amount greater than $0.''
              (get fd ''amount'')) @
         issues_of ''status''
           (z_enum [''pending'', ''paid''] ''Please select an invoice status.''
              (get fd ''status'')))), w)"
  using assms
  by (simp add: updateInvoice_def parse_def UpdateInvoice_def schema_form throw_def)

lemma updateInvoice_on_valid:
  assumes "valid_form fd"
  shows "updateInvoice env i fd w =
     (let st = UPDATE (text_of fd ''customerId'')
                 (js_times (Number (get fd ''amount'')) (Fin 100))
                 (text_of fd ''status'') i
      in if sql_accepts env st (invoices w)
         then if revalidate_returns env
              then (Throw (NEXT_REDIRECT ''/dashboard/invoices''),
                    \<lparr>invoices = run_statement env st (invoices w),
                     trace = trace w @ [SqlDone st, Revalidated ''/dashboard/invoices'',
                                        Redirected ''/dashboard/invoices'']\<rparr>)
              else (Throw CacheFailure,
                    \<lparr>invoices = run_statement env st (invoices w),
                     trace = trace w @ [SqlDone st, RevalidateFailed ''/dashboard/invoices'']\<rparr>)
         else (Return \<lparr>errors = None,
                       message = Some ''Database Error: Failed to Update Invoice.''\<rparr>,
               \<lparr>invoices = invoices w, trace = trace w @ [SqlFailed st]\<rparr>))"
  using assms
  by (simp add: updateInvoice_def parse_def UpdateInvoice_def schema_form Let_def seq_def
      try_catch_def
      sql_def revalidatePath_def redirect_def ret_def)

lemma deleteInvoice_cases:
  "deleteInvoice env i w =
     (if sql_accepts env (DELETE i) (invoices w)
      then if revalidate_returns env
           then (Return \<lparr>errors = None, message = Some ''Deleted Invoice.''\<rparr>,
                 \<lparr>invoices = filter (\<lambda>r. row_id r \<noteq> i) (invoices w),
                  trace = trace w @ [SqlDone (DELETE i), Revalidated ''/dashboard/invoices'']\<rparr>)
           else (Return \<lparr>errors = None,
                         message = Some ''Database Error: Failed to Delete Invoice.''\<rparr>,
                 \<lparr>invoices = filter (\<lambda>r. row_id r \<noteq> i) (invoices w),
                  trace = trace w @ [SqlDone (DELETE i),
                                     RevalidateFailed ''/dashboard/invoices'']\<rparr>)
      else (Return \<lparr>errors = None,
                    message = Some ''Database Error: Failed to Delete Invoice.''\<rparr>,
            \<lparr>invoices = invoices w, trace = trace w @ [SqlFailed (DELETE i)]\<rparr>))"
  by (simp add: deleteInvoice_def seq_def try_catch_def sql_def revalidatePath_def ret_def)

lemma form_errors:
  "fieldErrors
     (issues_of ''customerId''
        (z_string ''Please select a customer.'' (get fd ''customerId'')) @
      issues_of ''amount''
        (z_coerce_number_gt (Fin 0) ''Please enter an amount greater than $0.''
           (get fd ''amount'')) @
      issues_of ''status''
        (z_enum [''pending'', ''paid''] ''Please select an invoice status.''
           (get fd ''status''))) =
   (\<lambda>f. if f = ''customerId''
        then (if customerId_ok fd then None else Some [''Please select a customer.''])
        else if f = ''amount''
        then (if amount_ok fd then None
              else Some [if Number (get fd ''amount'') = NaN
                         then ''Expected number, received nan''
                         else ''Please enter an amount greater than $0.''])
        else if f = ''status''
        then (if status_ok fd then None
              else Some [case get fd ''status'' of
                           Some (Text s) \<Rightarrow>
                             ''Invalid enum value. Expected '' @
                             joinValues [''pending'', ''paid''] @ '', received '' @ quoted s
                         | _ \<Rightarrow> ''Please select an invoice status.''])
        else None)"
  unfolding fieldErrors_three z_string_field z_number_field z_enum_field
  by (auto simp: fun_eq_iff)

subsection \<open>Evaluation at the concrete inputs\<close>

lemma example_form_get:
  "get (example_form c a s) ''customerId'' = Some (Text c)"
  "get (example_form c a s) ''amount'' = Some (Text a)"
  "get (example_form c a s) ''status'' = Some (Text s)"
  by (simp_all add: get_def example_form_def)

lemma example_form_text:
  "text_of (example_form c a s) ''customerId'' = c"
  "text_of (example_form c a s) ''status'' = s"
  by (simp_all add: text_of_def example_form_get)

lemma example_form_valid:
  assumes "js_less (Fin 0) (StringToNumber a)" and "s = ''pending'' \<or> s = ''paid''"
  shows "valid_form (example_form c a s)"
  using assms
  by (auto simp: valid_form_def customerId_ok_def amount_ok_def status_ok_def example_form_get)

lemma example_amounts:
  "StringToNumber ''5'' = Fin 5"
  "StringToNumber ''0.125'' = Fin (1 / 8)"
  "StringToNumber ''0.375'' = Fin (3 / 8)"
  "StringToNumber ''-5'' = Fin (- 5)"
  by code_simp+

lemma example_products:
  "js_times (Fin 5) (Fin 100) = Fin 500"
  "js_times (Fin (1 / 8)) (Fin 100) = Fin (25 / 2)"
  "js_times (Fin (3 / 8)) (Fin 100) = Fin (75 / 2)"
  by code_simp+

lemma digit_chars:
  "char_of (48::nat) = CHR ''0''" "char_of (49::nat) = CHR ''1''"
  "char_of (50::nat) = CHR ''2''" "char_of (51::nat) = CHR ''3''"
  "char_of (52::nat) = CHR ''4''" "char_of (53::nat) = CHR ''5''"
  "char_of (54::nat) = CHR ''6''" "char_of (55::nat) = CHR ''7''"
  "char_of (56::nat) = CHR ''8''" "char_of (57::nat) = CHR ''9''"
  by code_simp+

lemma decimal_examples:
  "decimal 12345 = ''12345''" "decimal 2026 = ''2026''" "decimal 11 = ''11''" "decimal 3 = ''3''"
  "decimal 5 = ''5''" "decimal 7 = ''7''" "decimal 9 = ''9''" "decimal 42 = ''42''"
  by (simp_all add: decimal.simps digit_chars)

lemma example_date:
  "index0 (split_str (CHR ''T'') (toISOString example_clock)) = ''2026-11-03''"
  "calendar_date example_clock = ''2026-11-03''"
  "YYYY_MM_DD example_clock = ''2026-11-03''"
  by (simp_all add: toISOString_date calendar_date_def YYYY_MM_DD_def year_string_def pad_def
      example_clock_def decimal_examples)


lemma example_env_sel:
  "sql_accepts example_env st rows"
  "generated_id example_env rows = ''inv3''"
  "revalidate_returns example_env"
  "clock example_env = example_clock"
  by (simp_all add: example_env_def)

lemma example_create:
  assumes "valid_form (example_form c a s)"
  shows "createInvoice example_env example_prev (example_form c a s) example_world =
     (Throw (NEXT_REDIRECT ''/dashboard/invoices''),
      \<lparr>invoices = invoices example_world @
         [\<lparr>row_id = ''inv3'', row_customer_id = c,
           row_amount = js_times (StringToNumber a) (Fin 100),
           row_status = s, row_date = ''2026-11-03''\<rparr>],
       trace = trace example_world @
         [SqlDone (INSERT c (js_times (StringToNumber a) (Fin 100)) s ''2026-11-03''),
          Revalidated ''/dashboard/invoices'', Redirected ''/dashboard/invoices'']\<rparr>)"
  by (simp add: createInvoice_on_valid[OF assms] example_form_get example_form_text
      example_date example_env_sel)

lemma example_update:
  assumes "valid_form (example_form c a s)"
  shows "updateInvoice example_env ''inv2'' (example_form c a s) example_world =
     (Throw (NEXT_REDIRECT ''/dashboard/invoices''),
      \<lparr>invoices =
         [\<lparr>row_id = ''inv1'', row_customer_id = ''c1'', row_amount = Fin 1000,
           row_status = ''pending'', row_date = ''2026-01-15''\<rparr>,
          \<lparr>row_id = ''inv2'', row_customer_id = c,
           row_amount = js_times (StringToNumber a) (Fin 100),
           row_status = s, row_date = ''2026-02-20''\<rparr>],
       trace =
         [SqlDone (UPDATE c (js_times (StringToNumber a) (Fin 100)) s ''inv2''),
          Revalidated ''/dashboard/invoices'', Redirected ''/dashboard/invoices'']\<rparr>)"
  by (simp add: updateInvoice_on_valid[OF assms] example_form_get example_form_text
      example_env_sel example_world_def)

lemma example_form_5_valid: "valid_form (example_form c ''5'' ''paid'')"
  by (rule example_form_valid) (simp_all add: example_amounts js_less_def)

section \<open>The claims\<close>

text \<open>
  In the statements below, \<open>env\<close> stands for what lies outside the file (the store's
  verdict on a statement, the id it generates, the outcome of the invalidation call,
  the clock) and \<open>w\<close> for the table and the trace before the call. "The store accepts
  the statement" and "the invalidation call returns" are hypotheses on \<open>env\<close>.
\<close>

subsection \<open>C1: a valid form is inserted once and the action redirects\<close>




subsection \<open>C2: the message after a failed insert\<close>

text \<open>
  Claim C2 gives the returned message as "Database Error: Failed to Create Invoice.",
  character for character. On a valid form and a store that rejects the insert,
  \<^verbatim>\<open>createInvoice\<close> returns an object with that text followed by a space; the table is
  unchanged and the only event is the failed store call, so nothing is invalidated and
  no redirect is raised. The messages of \<^verbatim>\<open>updateInvoice\<close> and \<^verbatim>\<open>deleteInvoice\<close> end at
  the full stop.
\<close>

theorem createInvoice_store_failure_message:
  "createInvoice (example_env\<lparr>sql_accepts := \<lambda>st rows. False\<rparr>) example_prev
       (example_form ''c1'' ''5'' ''paid'') example_world =
     (Return \<lparr>errors = None,
              message = Some ''Database Error: Failed to Create Invoice. ''\<rparr>,
      \<lparr>invoices = invoices example_world,
       trace = trace example_world @
         [SqlFailed (INSERT ''c1'' (Fin 500) ''paid'' ''2026-11-03'')]\<rparr>) \<and>
   ''Database Error: Failed to Create Invoice. '' \<noteq>
     ''Database Error: Failed to Create Invoice.''"
proof -
  have "valid_form (example_form ''c1'' ''5'' ''paid'')"
    by (rule example_form_valid) (simp_all add: example_amounts js_less_def)
  then show ?thesis
    by (simp add: createInvoice_on_valid example_form_get example_form_text example_amounts
        example_products example_date example_env_sel)
qed

subsection \<open>C3: the persisted amount\<close>

text \<open>
  As stated, claim C3 has every persisted amount a non-negative integer. Neither action
  rounds or truncates: for the amount \<^verbatim>\<open>0.375\<close> both \<^verbatim>\<open>updateInvoice\<close> and
  \<^verbatim>\<open>createInvoice\<close> write \<open>37.5\<close>.
\<close>

theorem updateInvoice_amount_fraction:
  "valid_form (example_form ''c9'' ''0.375'' ''pending'') \<and>
   invoices (snd (updateInvoice example_env ''inv2'' (example_form ''c9'' ''0.375'' ''pending'')
       example_world)) =
     [\<lparr>row_id = ''inv1'', row_customer_id = ''c1'', row_amount = Fin 1000,
       row_status = ''pending'', row_date = ''2026-01-15''\<rparr>,
      \<lparr>row_id = ''inv2'', row_customer_id = ''c9'', row_amount = Fin (75 / 2),
       row_status = ''pending'', row_date = ''2026-02-20''\<rparr>] \<and>
   invoices (snd (createInvoice example_env example_prev
       (example_form ''c9'' ''0.375'' ''pending'') example_world)) =
     invoices example_world @
     [\<lparr>row_id = ''inv3'', row_customer_id = ''c9'', row_amount = Fin (75 / 2),
       row_status = ''pending'', row_date = ''2026-11-03''\<rparr>] \<and>
   \<not> isInteger (Fin (75 / 2))"
proof -
  have v: "valid_form (example_form ''c9'' ''0.375'' ''pending'')"
    by (rule example_form_valid) (simp_all add: example_amounts js_less_def)
  have "\<lfloor>75 / 2 :: rat\<rfloor> = 37" by (simp add: floor_eq_iff)
  then have i: "\<not> isInteger (Fin (75 / 2))" by simp
  show ?thesis
    using v i
    by (simp add: updateInvoice_on_valid createInvoice_on_valid example_form_get example_form_text
        example_amounts example_products example_date example_env_sel example_world_def)
qed

text \<open>
  Claim C3, amended. Every row that is in the table after \<^verbatim>\<open>createInvoice\<close> or
  \<^verbatim>\<open>updateInvoice\<close> and was not there before holds the amount \<^verbatim>\<open>amount * 100\<close>, where
  \<^verbatim>\<open>amount\<close> is the coerced amount of the form and is greater than zero; the persisted
  amount is greater than zero (it may be infinite, and it need not be an integer).
\<close>

theorem persisted_amount_positive:
  "(\<forall>r \<in> set (invoices (snd (createInvoice env prevState formData w))) - set (invoices w).
      row_amount r = js_times (Number (get formData ''amount'')) (Fin 100) \<and>
      js_less (Fin 0) (Number (get formData ''amount'')) \<and>
      js_less (Fin 0) (row_amount r)) \<and>
   (\<forall>r \<in> set (invoices (snd (updateInvoice env i formData w))) - set (invoices w).
      row_amount r = js_times (Number (get formData ''amount'')) (Fin 100) \<and>
      js_less (Fin 0) (Number (get formData ''amount'')) \<and>
      js_less (Fin 0) (row_amount r))"
proof (cases "valid_form formData")
  case False
  then show ?thesis by (simp add: createInvoice_on_invalid updateInvoice_on_invalid)
next
  case True
  then have pos: "js_less (Fin 0) (Number (get formData ''amount''))"
    by (simp add: valid_form_def amount_ok_def)
  then have cents: "js_less (Fin 0) (js_times (Number (get formData ''amount'')) (Fin 100))"
    by (rule amountInCents_positive)
  have c: "\<forall>r \<in> set (invoices (snd (createInvoice env prevState formData w))) - set (invoices w).
      row_amount r = js_times (Number (get formData ''amount'')) (Fin 100) \<and>
      js_less (Fin 0) (Number (get formData ''amount'')) \<and>
      js_less (Fin 0) (row_amount r)"
    using pos cents by (auto simp: createInvoice_on_valid[OF True] Let_def)
  have u: "\<forall>r \<in> set (invoices (snd (updateInvoice env i formData w))) - set (invoices w).
      row_amount r = js_times (Number (get formData ''amount'')) (Fin 100) \<and>
      js_less (Fin 0) (Number (get formData ''amount'')) \<and>
      js_less (Fin 0) (row_amount r)"
    using pos cents by (auto simp: updateInvoice_on_valid[OF True] Let_def)
  from c u show ?thesis by (rule conjI)
qed

theorem persisted_amount_positive_witness:
  "\<lparr>row_id = ''inv3'', row_customer_id = ''c1'', row_amount = Fin 500,
    row_status = ''paid'', row_date = ''2026-11-03''\<rparr>
     \<in> set (invoices (snd (createInvoice example_env example_prev
                (example_form ''c1'' ''5'' ''paid'') example_world))) -
       set (invoices example_world) \<and>
   js_less (Fin 0) (Number (get (example_form ''c1'' ''5'' ''paid'') ''amount'')) \<and>
   js_less (Fin 0) (Fin 500) \<and>
   \<lparr>row_id = ''inv2'', row_customer_id = ''c1'', row_amount = Fin 500,
    row_status = ''paid'', row_date = ''2026-02-20''\<rparr>
     \<in> set (invoices (snd (updateInvoice example_env ''inv2''
                (example_form ''c1'' ''5'' ''paid'') example_world))) -
       set (invoices example_world)"
proof -
  let ?fd = "example_form ''c1'' ''5'' ''paid''"
  let ?new = "\<lparr>row_id = ''inv3'', row_customer_id = ''c1'', row_amount = Fin 500,
    row_status = ''paid'', row_date = ''2026-11-03''\<rparr>"
  let ?upd = "\<lparr>row_id = ''inv2'', row_customer_id = ''c1'', row_amount = Fin 500,
    row_status = ''paid'', row_date = ''2026-02-20''\<rparr>"
  have m1: "?new \<in> set (invoices (snd (createInvoice example_env example_prev ?fd
      example_world))) - set (invoices example_world)"
    unfolding example_create[OF example_form_5_valid]
    by (simp add: example_amounts example_products example_world_def)
  have m2: "?upd \<in> set (invoices (snd (updateInvoice example_env ''inv2'' ?fd
      example_world))) - set (invoices example_world)"
    unfolding example_update[OF example_form_5_valid]
    by (simp add: example_amounts example_products example_world_def)
  have t: "row_amount ?new = js_times (Number (get ?fd ''amount'')) (Fin 100) \<and>
      js_less (Fin 0) (Number (get ?fd ''amount'')) \<and> js_less (Fin 0) (row_amount ?new)"
    by (rule persisted_amount_positive[of example_env example_prev ?fd example_world
          "''inv2''", THEN conjunct1, THEN bspec, OF m1])
  from t have a: "js_less (Fin 0) (Number (get ?fd ''amount''))" by blast
  from t have "js_less (Fin 0) (row_amount ?new)" by blast
  then have b: "js_less (Fin 0) (Fin 500)" by simp
  from m1 a b m2 show ?thesis by (intro conjI)
qed

subsection \<open>C4: a status outside the enumeration\<close>

text \<open>
  As stated, claim C4 has the message "Please select an invoice status." for every
  status that is not "pending" or "paid", a non-matching string included. The schema
  gives that message as \<^verbatim>\<open>invalid_type_error\<close>, so it is used for a value that is not a
  string; for the string "done" the list holds the library's message for an invalid
  enum value instead.
\<close>

theorem createInvoice_status_other_string:
  "createInvoice example_env example_prev (example_form ''c1'' ''5'' ''done'') example_world =
     (Return \<lparr>errors = Some (fieldErrors
                [Issue ''status''
                   (''Invalid enum value. Expected '' @ quoted ''pending'' @ '' | '' @
                    quoted ''paid'' @ '', received '' @ quoted ''done'')]),
              message = Some ''Missing Fields. Failed to Create Invoice.''\<rparr>,
      example_world) \<and>
   fieldErrors
     [Issue ''status''
        (''Invalid enum value. Expected '' @ quoted ''pending'' @ '' | '' @
         quoted ''paid'' @ '', received '' @ quoted ''done'')] ''status'' =
     Some [''Invalid enum value. Expected '' @ quoted ''pending'' @ '' | '' @
           quoted ''paid'' @ '', received '' @ quoted ''done''] \<and>
   ''Please select an invoice status.'' \<notin>
     set [''Invalid enum value. Expected '' @ quoted ''pending'' @ '' | '' @
          quoted ''paid'' @ '', received '' @ quoted ''done'']"
proof -
  have ok: "customerId_ok (example_form ''c1'' ''5'' ''done'')"
      "amount_ok (example_form ''c1'' ''5'' ''done'')"
    by (simp_all add: customerId_ok_def amount_ok_def example_form_get example_amounts
        js_less_def)
  have bad: "\<not> status_ok (example_form ''c1'' ''5'' ''done'')"
    by (simp add: status_ok_def example_form_get)
  then have inv: "\<not> valid_form (example_form ''c1'' ''5'' ''done'')"
    by (simp add: valid_form_def)
  have "createInvoice example_env example_prev (example_form ''c1'' ''5'' ''done'')
      example_world =
     (Return \<lparr>errors = Some (fieldErrors
                [Issue ''status''
                   (''Invalid enum value. Expected '' @ quoted ''pending'' @ '' | '' @
                    quoted ''paid'' @ '', received '' @ quoted ''done'')]),
              message = Some ''Missing Fields. Failed to Create Invoice.''\<rparr>,
      example_world)"
    unfolding createInvoice_on_invalid[OF inv] z_string_field z_number_field z_enum_field
    using ok bad by (simp add: issues_of_def example_form_get)
  moreover have "fieldErrors
     [Issue ''status''
        (''Invalid enum value. Expected '' @ quoted ''pending'' @ '' | '' @
         quoted ''paid'' @ '', received '' @ quoted ''done'')] ''status'' =
     Some [''Invalid enum value. Expected '' @ quoted ''pending'' @ '' | '' @
           quoted ''paid'' @ '', received '' @ quoted ''done'']"
    by (simp add: fieldErrors_def)
  moreover have "''Please select an invoice status.'' \<notin>
     set [''Invalid enum value. Expected '' @ quoted ''pending'' @ '' | '' @
          quoted ''paid'' @ '', received '' @ quoted ''done'']"
    by (simp add: quoted_def)
  ultimately show ?thesis by blast
qed

text \<open>
  Claim C4, amended. For every form whose status is not exactly "pending" or "paid",
  \<^verbatim>\<open>createInvoice\<close> returns the validation result with the world unchanged (no store
  write), and \<^verbatim>\<open>errors.status\<close> holds one message: "Please select an invoice status."
  when the status is absent or not a string, and "Invalid enum value. Expected
  'pending' | 'paid', received '...'" with the submitted value when it is a string.
\<close>

theorem createInvoice_status_rejected:
  assumes "\<not> status_ok formData"
  shows "\<exists>r. createInvoice env prevState formData w = (Return r, w) \<and>
           message r = Some ''Missing Fields. Failed to Create Invoice.'' \<and>
           errors_for r ''status'' =
             [case get formData ''status'' of
                Some (Text s) \<Rightarrow>
                  ''Invalid enum value. Expected '' @ joinValues [''pending'', ''paid''] @
                  '', received '' @ quoted s
              | _ \<Rightarrow> ''Please select an invoice status.'']"
proof -
  have "\<not> valid_form formData" using assms by (simp add: valid_form_def)
  then show ?thesis
    using assms by (simp add: createInvoice_on_invalid form_errors errors_for_def)
qed

theorem createInvoice_status_rejected_witness:
  "\<not> status_ok [(''customerId'', Text ''c1''), (''amount'', Text ''5'')] \<and>
   (\<exists>r. createInvoice example_env example_prev
          [(''customerId'', Text ''c1''), (''amount'', Text ''5'')] example_world =
          (Return r, example_world) \<and>
        message r = Some ''Missing Fields. Failed to Create Invoice.'' \<and>
        errors_for r ''status'' = [''Please select an invoice status.''])"
proof -
  have h: "\<not> status_ok [(''customerId'', Text ''c1''), (''amount'', Text ''5'')]"
    by (simp add: status_ok_def get_def)
  have g: "get [(''customerId'', Text ''c1''), (''amount'', Text ''5'')] ''status'' = None"
    by (simp add: get_def)
  from createInvoice_status_rejected[OF h, of example_env example_prev example_world] h
  show ?thesis unfolding g by simp
qed

subsection \<open>C5: an amount that is not positive\<close>

text \<open>
  Claim C5. Whenever the amount field coerces to a number that is less than or equal to
  zero, \<^verbatim>\<open>createInvoice\<close> returns an object whose \<^verbatim>\<open>errors.amount\<close> list holds the
  message "Please enter an amount greater than $0." and whose \<^verbatim>\<open>message\<close> is "Missing
  Fields. Failed to Create Invoice."; the world is left as it was, so no statement
  reaches the store, nothing is invalidated and no redirect is raised.
\<close>

theorem createInvoice_amount_not_positive:
  assumes "js_le (Number (get formData ''amount'')) (Fin 0)"
  shows "\<exists>r. createInvoice env prevState formData w = (Return r, w) \<and>
           errors_for r ''amount'' = [''Please enter an amount greater than $0.''] \<and>
           message r = Some ''Missing Fields. Failed to Create Invoice.''"
proof -
  have bad: "\<not> amount_ok formData" and n: "Number (get formData ''amount'') \<noteq> NaN"
    using assms by (auto simp: amount_ok_def js_less_zero_iff js_le_def)
  then have "\<not> valid_form formData" by (simp add: valid_form_def)
  then show ?thesis
    using bad n
    by (simp add: createInvoice_on_invalid form_errors errors_for_def)
qed

theorem createInvoice_amount_not_positive_witness:
  "js_le (Number (get (example_form ''c1'' ''-5'' ''paid'') ''amount'')) (Fin 0) \<and>
   (\<exists>r. createInvoice example_env example_prev (example_form ''c1'' ''-5'' ''paid'')
          example_world = (Return r, example_world) \<and>
        errors_for r ''amount'' = [''Please enter an amount greater than $0.''] \<and>
        message r = Some ''Missing Fields. Failed to Create Invoice.'')"
proof -
  have h: "js_le (Number (get (example_form ''c1'' ''-5'' ''paid'') ''amount'')) (Fin 0)"
    by code_simp
  from createInvoice_amount_not_positive[OF h, of example_env example_prev example_world] h
  show ?thesis by (rule conjI[rotated])
qed

subsection \<open>C6: a missing customer, and several violations at once\<close>

text \<open>
  Claim C6. When \<^verbatim>\<open>customerId\<close> is absent from the form data, \<^verbatim>\<open>createInvoice\<close> returns
  an object whose \<^verbatim>\<open>errors.customerId\<close> list holds "Please select a customer." and
  leaves the world as it was. For every form that violates a field constraint, the
  returned \<^verbatim>\<open>errors\<close> mapping has a key for each violated field at once (and for no
  other of the three fields).
\<close>

theorem createInvoice_missing_customer:
  "(get formData ''customerId'' = None \<longrightarrow>
      (\<exists>r. createInvoice env prevState formData w = (Return r, w) \<and>
           errors_for r ''customerId'' = [''Please select a customer.''])) \<and>
   (\<not> valid_form formData \<longrightarrow>
      (\<exists>e. createInvoice env prevState formData w =
             (Return \<lparr>errors = Some e,
                      message = Some ''Missing Fields. Failed to Create Invoice.''\<rparr>, w) \<and>
           (''customerId'' \<in> dom e \<longleftrightarrow> \<not> customerId_ok formData) \<and>
           (''amount'' \<in> dom e \<longleftrightarrow> \<not> amount_ok formData) \<and>
           (''status'' \<in> dom e \<longleftrightarrow> \<not> status_ok formData)))"
proof (intro conjI impI)
  assume none: "get formData ''customerId'' = None"
  then have bad: "\<not> customerId_ok formData" by (simp add: customerId_ok_def)
  then have "\<not> valid_form formData" by (simp add: valid_form_def)
  then show "\<exists>r. createInvoice env prevState formData w = (Return r, w) \<and>
      errors_for r ''customerId'' = [''Please select a customer.'']"
    using bad by (simp add: createInvoice_on_invalid form_errors errors_for_def)
next
  assume "\<not> valid_form formData"
  then show "\<exists>e. createInvoice env prevState formData w =
             (Return \<lparr>errors = Some e,
                      message = Some ''Missing Fields. Failed to Create Invoice.''\<rparr>, w) \<and>
           (''customerId'' \<in> dom e \<longleftrightarrow> \<not> customerId_ok formData) \<and>
           (''amount'' \<in> dom e \<longleftrightarrow> \<not> amount_ok formData) \<and>
           (''status'' \<in> dom e \<longleftrightarrow> \<not> status_ok formData)"
    by (simp add: createInvoice_on_invalid form_errors dom_def)
qed

theorem createInvoice_missing_customer_witness:
  "get [(''amount'', Text ''-5''), (''status'', Text ''done'')] ''customerId'' = None \<and>
   \<not> valid_form [(''amount'', Text ''-5''), (''status'', Text ''done'')] \<and>
   (\<exists>r. createInvoice example_env example_prev
          [(''amount'', Text ''-5''), (''status'', Text ''done'')] example_world =
          (Return r, example_world) \<and>
        errors_for r ''customerId'' = [''Please select a customer.'']) \<and>
   (\<exists>e. createInvoice example_env example_prev
          [(''amount'', Text ''-5''), (''status'', Text ''done'')] example_world =
          (Return \<lparr>errors = Some e,
                   message = Some ''Missing Fields. Failed to Create Invoice.''\<rparr>,
           example_world) \<and>
        ''customerId'' \<in> dom e \<and> ''amount'' \<in> dom e \<and> ''status'' \<in> dom e)"
proof -
  let ?fd = "[(''amount'', Text ''-5''), (''status'', Text ''done'')]"
  have h1: "get ?fd ''customerId'' = None" by (simp add: get_def)
  have c: "\<not> customerId_ok ?fd" by (simp add: customerId_ok_def get_def)
  have a: "\<not> amount_ok ?fd"
    by (simp add: amount_ok_def get_def example_amounts js_less_def)
  have s: "\<not> status_ok ?fd" by (simp add: status_ok_def get_def)
  have h2: "\<not> valid_form ?fd" using c by (simp add: valid_form_def)
  from createInvoice_missing_customer[of ?fd example_env example_prev example_world]
    h1 h2 c a s
  show ?thesis by simp
qed

subsection \<open>C7: the frame of an update\<close>




subsection \<open>C8: the result of a delete\<close>

text \<open>
  As stated, claim C8 has \<^verbatim>\<open>deleteInvoice\<close> return the object with the message "Deleted
  Invoice." whenever the store delete succeeds. The invalidation call stands inside
  the \<^verbatim>\<open>try\<close> block: when the delete succeeds and that call throws, the row is gone
  and the object returned is the one with the database error message.
\<close>

theorem deleteInvoice_cache_failure:
  "sql_accepts (example_env\<lparr>revalidate_returns := False\<rparr>) (DELETE ''inv2'')
     (invoices example_world) \<and>
   deleteInvoice (example_env\<lparr>revalidate_returns := False\<rparr>) ''inv2'' example_world =
     (Return \<lparr>errors = None,
              message = Some ''Database Error: Failed to Delete Invoice.''\<rparr>,
      \<lparr>invoices =
         [\<lparr>row_id = ''inv1'', row_customer_id = ''c1'', row_amount = Fin 1000,
           row_status = ''pending'', row_date = ''2026-01-15''\<rparr>],
       trace = trace example_world @
         [SqlDone (DELETE ''inv2''), RevalidateFailed ''/dashboard/invoices'']\<rparr>) \<and>
   ''Database Error: Failed to Delete Invoice.'' \<noteq> ''Deleted Invoice.''"
proof -
  have a: "sql_accepts (example_env\<lparr>revalidate_returns := False\<rparr>) (DELETE ''inv2'')
     (invoices example_world)" by (simp add: example_env_def)
  have d: "deleteInvoice (example_env\<lparr>revalidate_returns := False\<rparr>) ''inv2'' example_world =
     (Return \<lparr>errors = None,
              message = Some ''Database Error: Failed to Delete Invoice.''\<rparr>,
      \<lparr>invoices =
         [\<lparr>row_id = ''inv1'', row_customer_id = ''c1'', row_amount = Fin 1000,
           row_status = ''pending'', row_date = ''2026-01-15''\<rparr>],
       trace = trace example_world @
         [SqlDone (DELETE ''inv2''), RevalidateFailed ''/dashboard/invoices'']\<rparr>)"
    unfolding deleteInvoice_cases by (simp add: example_env_def example_world_def)
  from a d show ?thesis by simp
qed

text \<open>
  Claim C8, amended. For every id: when the store executes the delete and the
  invalidation call returns, \<^verbatim>\<open>deleteInvoice\<close> has invalidated \<^verbatim>\<open>/dashboard/invoices\<close>
  and returns the object with the message "Deleted Invoice.", with no redirect among
  its effects; when the store call fails it returns the object with the message
  "Database Error: Failed to Delete Invoice.".
\<close>

theorem deleteInvoice_result:
  "(sql_accepts env (DELETE i) (invoices w) \<longrightarrow> revalidate_returns env \<longrightarrow>
      deleteInvoice env i w =
        (Return \<lparr>errors = None, message = Some ''Deleted Invoice.''\<rparr>,
         \<lparr>invoices = filter (\<lambda>r. row_id r \<noteq> i) (invoices w),
          trace = trace w @ [SqlDone (DELETE i), Revalidated ''/dashboard/invoices'']\<rparr>)) \<and>
   (\<not> sql_accepts env (DELETE i) (invoices w) \<longrightarrow>
      deleteInvoice env i w =
        (Return \<lparr>errors = None,
                 message = Some ''Database Error: Failed to Delete Invoice.''\<rparr>,
         \<lparr>invoices = invoices w, trace = trace w @ [SqlFailed (DELETE i)]\<rparr>))"
proof (intro conjI impI)
  assume "sql_accepts env (DELETE i) (invoices w)" and "revalidate_returns env"
  then show "deleteInvoice env i w =
        (Return \<lparr>errors = None, message = Some ''Deleted Invoice.''\<rparr>,
         \<lparr>invoices = filter (\<lambda>r. row_id r \<noteq> i) (invoices w),
          trace = trace w @ [SqlDone (DELETE i), Revalidated ''/dashboard/invoices'']\<rparr>)"
    by (simp add: deleteInvoice_cases)
next
  assume "\<not> sql_accepts env (DELETE i) (invoices w)"
  then show "deleteInvoice env i w =
        (Return \<lparr>errors = None,
                 message = Some ''Database Error: Failed to Delete Invoice.''\<rparr>,
         \<lparr>invoices = invoices w, trace = trace w @ [SqlFailed (DELETE i)]\<rparr>)"
    by (simp add: deleteInvoice_cases)
qed

theorem deleteInvoice_result_witness:
  "(sql_accepts example_env (DELETE ''inv1'') (invoices example_world) \<and>
    revalidate_returns example_env \<and>
    deleteInvoice example_env ''inv1'' example_world =
      (Return \<lparr>errors = None, message = Some ''Deleted Invoice.''\<rparr>,
       \<lparr>invoices = filter (\<lambda>r. row_id r \<noteq> ''inv1'') (invoices example_world),
        trace = trace example_world @
          [SqlDone (DELETE ''inv1''), Revalidated ''/dashboard/invoices'']\<rparr>)) \<and>
   (\<not> sql_accepts (example_env\<lparr>sql_accepts := \<lambda>st rows. False\<rparr>) (DELETE ''inv1'')
        (invoices example_world) \<and>
    deleteInvoice (example_env\<lparr>sql_accepts := \<lambda>st rows. False\<rparr>) ''inv1'' example_world =
      (Return \<lparr>errors = None,
               message = Some ''Database Error: Failed to Delete Invoice.''\<rparr>,
       \<lparr>invoices = invoices example_world,
        trace = trace example_world @ [SqlFailed (DELETE ''inv1'')]\<rparr>))"
proof -
  have h1: "sql_accepts example_env (DELETE ''inv1'') (invoices example_world)"
    and h2: "revalidate_returns example_env"
    and h3: "\<not> sql_accepts (example_env\<lparr>sql_accepts := \<lambda>st rows. False\<rparr>) (DELETE ''inv1'')
        (invoices example_world)"
    by (simp_all add: example_env_def)
  from deleteInvoice_result[of example_env "''inv1''" example_world]
    deleteInvoice_result[of "example_env\<lparr>sql_accepts := \<lambda>st rows. False\<rparr>" "''inv1''"
      example_world] h1 h2 h3
  show ?thesis by blast
qed

subsection \<open>C9: the redirect comes after the write and outside the handler\<close>

text \<open>
  Claim C9. In every execution of \<^verbatim>\<open>createInvoice\<close> and of \<^verbatim>\<open>updateInvoice\<close>: when a
  redirect is raised, the events of the call are the successful store write, the
  invalidation and then the redirect, the table holds the result of the write, and the
  call completes by throwing the redirect signal, so the handler around the store write
  has not intercepted it; and a call that returns an object (a store failure report in
  particular) has raised no redirect.
\<close>

theorem redirect_only_after_write:
  "(\<forall>p. Redirected p \<in> set (new_events w (snd (createInvoice env prevState formData w))) \<longrightarrow>
      fst (createInvoice env prevState formData w) = Throw (NEXT_REDIRECT p) \<and>
      (\<exists>st. new_events w (snd (createInvoice env prevState formData w)) =
              [SqlDone st, Revalidated ''/dashboard/invoices'', Redirected p] \<and>
            sql_accepts env st (invoices w) \<and>
            invoices (snd (createInvoice env prevState formData w)) =
              run_statement env st (invoices w))) \<and>
   (\<forall>p. Redirected p \<in> set (new_events w (snd (updateInvoice env i formData w))) \<longrightarrow>
      fst (updateInvoice env i formData w) = Throw (NEXT_REDIRECT p) \<and>
      (\<exists>st. new_events w (snd (updateInvoice env i formData w)) =
              [SqlDone st, Revalidated ''/dashboard/invoices'', Redirected p] \<and>
            sql_accepts env st (invoices w) \<and>
            invoices (snd (updateInvoice env i formData w)) =
              run_statement env st (invoices w))) \<and>
   (\<forall>r. fst (createInvoice env prevState formData w) = Return r \<longrightarrow>
      (\<forall>p. Redirected p \<notin> set (new_events w (snd (createInvoice env prevState formData w))))) \<and>
   (\<forall>r. fst (updateInvoice env i formData w) = Return r \<longrightarrow>
      (\<forall>p. Redirected p \<notin> set (new_events w (snd (updateInvoice env i formData w)))))"
proof (cases "valid_form formData")
  case False
  then show ?thesis
    by (simp add: createInvoice_on_invalid updateInvoice_on_invalid new_events_def)
next
  case True
  show ?thesis
    unfolding createInvoice_on_valid[OF True] updateInvoice_on_valid[OF True] Let_def
    by (simp add: new_events_def)
qed

theorem redirect_only_after_write_witness:
  "Redirected ''/dashboard/invoices''
     \<in> set (new_events example_world
              (snd (createInvoice example_env example_prev (example_form ''c1'' ''5'' ''paid'')
                      example_world))) \<and>
   fst (createInvoice example_env example_prev (example_form ''c1'' ''5'' ''paid'')
          example_world) = Throw (NEXT_REDIRECT ''/dashboard/invoices'') \<and>
   (\<exists>st. new_events example_world
           (snd (createInvoice example_env example_prev (example_form ''c1'' ''5'' ''paid'')
                   example_world)) =
           [SqlDone st, Revalidated ''/dashboard/invoices'',
            Redirected ''/dashboard/invoices''] \<and>
         sql_accepts example_env st (invoices example_world) \<and>
         invoices (snd (createInvoice example_env example_prev
                          (example_form ''c1'' ''5'' ''paid'') example_world)) =
           run_statement example_env st (invoices example_world)) \<and>
   fst (updateInvoice (example_env\<lparr>sql_accepts := \<lambda>st rows. False\<rparr>) ''inv2''
          (example_form ''c1'' ''5'' ''paid'') example_world) =
     Return \<lparr>errors = None, message = Some ''Database Error: Failed to Update Invoice.''\<rparr> \<and>
   Redirected ''/dashboard/invoices''
     \<notin> set (new_events example_world
              (snd (updateInvoice (example_env\<lparr>sql_accepts := \<lambda>st rows. False\<rparr>) ''inv2''
                      (example_form ''c1'' ''5'' ''paid'') example_world)))"
proof -
  let ?fd = "example_form ''c1'' ''5'' ''paid''"
  let ?down = "example_env\<lparr>sql_accepts := \<lambda>st rows. False\<rparr>"
  have m: "Redirected ''/dashboard/invoices''
     \<in> set (new_events example_world
              (snd (createInvoice example_env example_prev ?fd example_world)))"
    unfolding example_create[OF example_form_5_valid] by (simp add: new_events_def)
  have f: "fst (updateInvoice ?down ''inv2'' ?fd example_world) =
     Return \<lparr>errors = None, message = Some ''Database Error: Failed to Update Invoice.''\<rparr>"
    by (simp add: updateInvoice_on_valid[OF example_form_5_valid])
  note t1 = redirect_only_after_write[of example_world example_env example_prev ?fd "''inv2''",
      THEN conjunct1, THEN spec, THEN mp, OF m]
  note t2 = redirect_only_after_write[of example_world ?down example_prev ?fd "''inv2''",
      THEN conjunct2, THEN conjunct2, THEN conjunct2, THEN spec, THEN mp, OF f, THEN spec,
      of "''/dashboard/invoices''"]
  from m t1 f t2 show ?thesis by (intro conjI) blast+
qed

subsection \<open>C10: a delete never throws\<close>

text \<open>
  Claim C10. For every id, \<^verbatim>\<open>deleteInvoice\<close> never throws: it returns one of the two
  objects with the message "Deleted Invoice." or "Database Error: Failed to Delete
  Invoice."; and when the delete has succeeded but the invalidation call fails, the
  object returned is the one with the database error message.
\<close>

theorem deleteInvoice_never_raises:
  "(fst (deleteInvoice env i w) = Return \<lparr>errors = None, message = Some ''Deleted Invoice.''\<rparr> \<or>
    fst (deleteInvoice env i w) =
      Return \<lparr>errors = None, message = Some ''Database Error: Failed to Delete Invoice.''\<rparr>) \<and>
   (sql_accepts env (DELETE i) (invoices w) \<and> \<not> revalidate_returns env \<longrightarrow>
    fst (deleteInvoice env i w) =
      Return \<lparr>errors = None, message = Some ''Database Error: Failed to Delete Invoice.''\<rparr>)"
proof -
  consider (deleted) "sql_accepts env (DELETE i) (invoices w)" "revalidate_returns env"
    | (cache_failed) "sql_accepts env (DELETE i) (invoices w)" "\<not> revalidate_returns env"
    | (store_failed) "\<not> sql_accepts env (DELETE i) (invoices w)"
    by blast
  then show ?thesis
  proof cases
    case deleted
    then show ?thesis by (simp add: deleteInvoice_cases)
  next
    case cache_failed
    then show ?thesis by (simp add: deleteInvoice_cases)
  next
    case store_failed
    then show ?thesis by (simp add: deleteInvoice_cases)
  qed
qed

theorem deleteInvoice_never_raises_witness:
  "sql_accepts (example_env\<lparr>revalidate_returns := False\<rparr>) (DELETE ''inv1'')
     (invoices example_world) \<and>
   \<not> revalidate_returns (example_env\<lparr>revalidate_returns := False\<rparr>) \<and>
   fst (deleteInvoice (example_env\<lparr>revalidate_returns := False\<rparr>) ''inv1'' example_world) =
     Return \<lparr>errors = None, message = Some ''Database Error: Failed to Delete Invoice.''\<rparr>"
proof -
  have h: "sql_accepts (example_env\<lparr>revalidate_returns := False\<rparr>) (DELETE ''inv1'')
      (invoices example_world) \<and>
    \<not> revalidate_returns (example_env\<lparr>revalidate_returns := False\<rparr>)"
    by (simp add: example_env_def)
  from deleteInvoice_never_raises[of "example_env\<lparr>revalidate_returns := False\<rparr>" "''inv1''"
      example_world] h
  show ?thesis by blast
qed

end
